theory Spec2Isabelle
  imports Main "HOL-Library.AList"
begin

section \<open>The Hack24 API client of hubot-hackbot (lib/client.coffee)\<close>

text \<open>
  The client is a class of five static operations. Each one builds a single request with
  \<^verbatim>\<open>robot.http\<close>, sends it, and settles a promise from the callback arguments
  \<^verbatim>\<open>(err, res, body)\<close>. The model keeps that shape: a request builder, the
  callback, and the operation that runs the callback on what the robot's transport answers
  for the request, together with the list of requests that were handed to the transport.
\<close>

subsection \<open>JavaScript values\<close>

text \<open>
  The values that \<^verbatim>\<open>JSON.parse\<close> yields and that object literals build. An object is
  the list of its own properties in insertion order; \<^verbatim>\<open>null\<close> is the value \<open>JNull\<close>.
  Assigning \<^verbatim>\<open>o.k = v\<close> to an object replaces the property where it stands or adds
  it at the end, which is \<open>AList.update k v\<close> on the list.
\<close>

datatype json =
    JNull
  | JBool bool
  | JNum int
  | JStr string
  | JArr "json list"
  | JObj "(string \<times> json) list"

subsection \<open>Process environment and string interpolation\<close>

type_synonym env = "string \<Rightarrow> string option"

text \<open>\<^verbatim>\<open>"#{x}"\<close> of an unset environment variable is the text \<^verbatim>\<open>undefined\<close>.\<close>

fun interp :: "string option \<Rightarrow> string" where
  "interp None = ''undefined''"
| "interp (Some s) = s"

definition getAuth :: "env \<Rightarrow> string" where
  "getAuth process_env =
     interp (process_env ''HACKBOT_USERNAME'') @ '':'' @ interp (process_env ''HACKBOT_PASSWORD'')"

subsection \<open>Requests, replies and promises\<close>

datatype http_method = GET | POST

text \<open>
  What the client puts into \<^verbatim>\<open>robot.http(url, options).header(k, v).get()\<close> or
  \<^verbatim>\<open>.post(body)\<close>: the url, the \<^verbatim>\<open>auth\<close> option (absent when no options object
  is passed), the headers it sets itself, the method and the body. What the robot and its
  HTTP library add on the way out (a \<^verbatim>\<open>User-Agent\<close>, the \<^verbatim>\<open>Authorization\<close> header
  made from the \<^verbatim>\<open>auth\<close> option) is not part of it.
\<close>

record request =
  url :: string
  auth :: "string option"
  headers :: "(string \<times> string) list"
  http_method :: http_method
  reqBody :: "string option"

text \<open>
  One invocation of the callback: its arguments \<^verbatim>\<open>(err, res, body)\<close>, where
  \<^verbatim>\<open>err?\<close> holds when \<open>err\<close> is \<open>Some\<close>, and when it happens. \<open>inside_executor\<close> holds
  when the transport calls back before \<^verbatim>\<open>.get()(callback)\<close> returns, that is, while the
  promise's executor is still running (a stub transport); it does not hold when the
  callback runs later, from the event loop (the HTTP client of hubot).
\<close>

record 'e reply =
  err :: "'e option"
  statusCode :: int
  body :: string
  inside_executor :: bool

type_synonym 'e robot = "request \<Rightarrow> 'e reply"

text \<open>
  How the promise of one call ends. The callback calls \<^verbatim>\<open>resolve v\<close> or
  \<^verbatim>\<open>reject e\<close>, or \<^verbatim>\<open>JSON.parse\<close> throws its \<^verbatim>\<open>SyntaxError\<close> before
  \<^verbatim>\<open>resolve\<close> is reached. An exception that leaves the callback while the executor is
  running leaves the executor too, and the promise is rejected with it
  (\<open>Rejected_SyntaxError\<close>); one that leaves the callback later reaches the transport,
  and the promise is never settled (\<open>Pending_SyntaxError\<close>).
\<close>

datatype ('e, 'a) promise =
    Resolved 'a
  | Rejected 'e
  | Rejected_SyntaxError
  | Pending_SyntaxError

subsection \<open>The operations\<close>

text \<open>
  \<^verbatim>\<open>JSON.stringify\<close> and \<^verbatim>\<open>JSON.parse\<close> belong to the language runtime and are
  parameters; \<open>JSON_parse\<close> returns \<open>None\<close> where \<^verbatim>\<open>JSON.parse\<close> throws.
\<close>

definition createTeam_request :: "env \<Rightarrow> (json \<Rightarrow> string) \<Rightarrow> string \<Rightarrow> string \<Rightarrow> request" where
  "createTeam_request process_env JSON_stringify teamName userId =
     \<lparr> url = interp (process_env ''HACK24API_URL'') @ ''/teams'',
       auth = Some (getAuth process_env),
       headers = AList.update ''Content-Type'' ''application/json'' [],
       http_method = POST,
       reqBody = Some (JSON_stringify
         (JObj [(''name'', JStr teamName), (''members'', JArr [JStr userId])])) \<rparr>"

definition createTeam_callback :: "'e reply \<Rightarrow> ('e, int) promise" where
  "createTeam_callback r =
     (case err r of Some e \<Rightarrow> Rejected e | None \<Rightarrow> Resolved (statusCode r))"

definition createTeam ::
  "env \<Rightarrow> (json \<Rightarrow> string) \<Rightarrow> 'e robot \<Rightarrow> string \<Rightarrow> string \<Rightarrow> ('e, int) promise \<times> request list" where
  "createTeam process_env JSON_stringify robot teamName userId =
     (let req = createTeam_request process_env JSON_stringify teamName userId
      in (createTeam_callback (robot req), [req]))"

definition createUser_request :: "env \<Rightarrow> (json \<Rightarrow> string) \<Rightarrow> string \<Rightarrow> string \<Rightarrow> request" where
  "createUser_request process_env JSON_stringify userId userName =
     \<lparr> url = interp (process_env ''HACK24API_URL'') @ ''/users'',
       auth = Some (getAuth process_env),
       headers = AList.update ''Content-Type'' ''application/json'' [],
       http_method = POST,
       reqBody = Some (JSON_stringify
         (JObj [(''userid'', JStr userId), (''name'', JStr userName)])) \<rparr>"

definition createUser_callback :: "'e reply \<Rightarrow> ('e, int) promise" where
  "createUser_callback r =
     (case err r of Some e \<Rightarrow> Rejected e | None \<Rightarrow> Resolved (statusCode r))"

definition createUser ::
  "env \<Rightarrow> (json \<Rightarrow> string) \<Rightarrow> 'e robot \<Rightarrow> string \<Rightarrow> string \<Rightarrow> ('e, int) promise \<times> request list" where
  "createUser process_env JSON_stringify robot userId userName =
     (let req = createUser_request process_env JSON_stringify userId userName
      in (createUser_callback (robot req), [req]))"

definition checkApi_request :: "env \<Rightarrow> request" where
  "checkApi_request process_env =
     \<lparr> url = interp (process_env ''HACK24API_URL'') @ ''/api'',
       auth = None,
       headers = [],
       http_method = GET,
       reqBody = None \<rparr>"

definition checkApi_callback :: "'e reply \<Rightarrow> ('e, int) promise" where
  "checkApi_callback r =
     (case err r of Some e \<Rightarrow> Rejected e | None \<Rightarrow> Resolved (statusCode r))"

definition checkApi :: "env \<Rightarrow> 'e robot \<Rightarrow> ('e, int) promise \<times> request list" where
  "checkApi process_env robot =
     (let req = checkApi_request process_env
      in (checkApi_callback (robot req), [req]))"

definition getUser_request :: "env \<Rightarrow> string \<Rightarrow> request" where
  "getUser_request process_env userId =
     \<lparr> url = interp (process_env ''HACK24API_URL'') @ ''/users/'' @ userId,
       auth = None,
       headers = AList.update ''Accept'' ''application/json'' [],
       http_method = GET,
       reqBody = None \<rparr>"

definition getUser_callback :: "(string \<Rightarrow> json option) \<Rightarrow> 'e reply \<Rightarrow> ('e, json) promise" where
  "getUser_callback JSON_parse r =
     (case err r of
        Some e \<Rightarrow> Rejected e
      | None \<Rightarrow>
          (let result = [(''statusCode'', JNum (statusCode r))]
           in if statusCode r = 200
              then (case JSON_parse (body r) of
                      None \<Rightarrow>
                        if inside_executor r then Rejected_SyntaxError else Pending_SyntaxError
                    | Some parsed \<Rightarrow> Resolved (JObj (AList.update ''user'' parsed result)))
              else Resolved (JObj result)))"

definition getUser ::
  "env \<Rightarrow> (string \<Rightarrow> json option) \<Rightarrow> 'e robot \<Rightarrow> string \<Rightarrow> ('e, json) promise \<times> request list" where
  "getUser process_env JSON_parse robot userId =
     (let req = getUser_request process_env userId
      in (getUser_callback JSON_parse (robot req), [req]))"

definition getTeamByName_request :: "env \<Rightarrow> string \<Rightarrow> request" where
  "getTeamByName_request process_env teamName =
     \<lparr> url = interp (process_env ''HACK24API_URL'') @ ''/teams/'' @ teamName,
       auth = None,
       headers = AList.update ''Accept'' ''application/json'' [],
       http_method = GET,
       reqBody = None \<rparr>"

definition getTeamByName_callback :: "(string \<Rightarrow> json option) \<Rightarrow> 'e reply \<Rightarrow> ('e, json) promise" where
  "getTeamByName_callback JSON_parse r =
     (case err r of
        Some e \<Rightarrow> Rejected e
      | None \<Rightarrow>
          (let result = [(''statusCode'', JNum (statusCode r))]
           in if statusCode r = 200
              then (case JSON_parse (body r) of
                      None \<Rightarrow>
                        if inside_executor r then Rejected_SyntaxError else Pending_SyntaxError
                    | Some parsed \<Rightarrow> Resolved (JObj (AList.update ''team'' parsed result)))
              else Resolved (JObj result)))"

definition getTeamByName ::
  "env \<Rightarrow> (string \<Rightarrow> json option) \<Rightarrow> 'e robot \<Rightarrow> string \<Rightarrow> ('e, json) promise \<times> request list" where
  "getTeamByName process_env JSON_parse robot teamName =
     (let req = getTeamByName_request process_env teamName
      in (getTeamByName_callback JSON_parse (robot req), [req]))"

subsection \<open>Fixtures of the client's test-suite\<close>

text \<open>
  A transport that answers every request with the same callback invocation, as the test
  servers of \<^verbatim>\<open>client_test.ts\<close> do for the one route they mount.
\<close>

definition canned :: "'e reply \<Rightarrow> 'e robot" where
  "canned r req = r"

definition test_env :: env where
  "test_env = map_of
     [(''HACK24API_URL'', ''http://localhost:12345''),
      (''HACKBOT_PASSWORD'', ''65456465464654'')]"

text \<open>
  The reply of a server that destroys the socket, and a reply with a status and a body,
  both delivered from the event loop; and a reply that a stub delivers at once.
\<close>

definition socket_hang_up :: "string reply" where
  "socket_hang_up =
     \<lparr> err = Some ''socket hang up'', statusCode = 0, body = [], inside_executor = False \<rparr>"

definition answer :: "int \<Rightarrow> string \<Rightarrow> string reply" where
  "answer s b = \<lparr> err = None, statusCode = s, body = b, inside_executor = False \<rparr>"


text \<open>
  The JSON functions of the runtime on the values the fixtures use: a table of texts and
  the values they denote. A text outside the table does not parse.
\<close>

definition stringify_of :: "(json \<times> string) list \<Rightarrow> json \<Rightarrow> string" where
  "stringify_of table j = (case map_of table j of None \<Rightarrow> [] | Some s \<Rightarrow> s)"

definition test_stringify :: "json \<Rightarrow> string" where
  \<open>test_stringify = stringify_of
     [(JObj [(''name'', JStr ''Pineapple Express''), (''members'', JArr [JStr ''U12345''])],
       ''{"name":"Pineapple Express","members":["U12345"]}''),
      (JObj [(''userid'', JStr ''U12345''), (''name'', JStr ''Barry'')],
       ''{"userid":"U12345","name":"Barry"}'')]\<close>

definition ref :: "string \<Rightarrow> string \<Rightarrow> json" where
  "ref t i = JObj [(''type'', JStr t), (''id'', JStr i)]"

definition primary_user :: "json \<Rightarrow> json" where
  "primary_user team_data = JObj
     [(''type'', JStr ''users''), (''id'', JStr ''U12345''),
      (''attributes'', JObj [(''name'', JStr ''Barry'')]),
      (''relationships'', JObj [(''team'', JObj [(''data'', team_data)])])]"

definition included_team :: json where
  "included_team = JObj
     [(''type'', JStr ''teams''), (''id'', JStr ''clicky-keys''),
      (''attributes'', JObj [(''name'', JStr ''Clicky Keys'')]),
      (''relationships'', JObj [(''members'', JObj
         [(''data'', JArr [ref ''users'' ''U12345'', ref ''users'' ''U67890''])])])]"

definition included_user :: json where
  "included_user = JObj
     [(''type'', JStr ''users''), (''id'', JStr ''U67890''),
      (''attributes'', JObj [(''name'', JStr ''Zackary'')]),
      (''relationships'', JObj [(''team'', JObj [(''data'', ref ''teams'' ''clicky-keys'')])])]"

text \<open>The document of `when user exists and not in a team'.\<close>

definition doc_no_team :: json where
  "doc_no_team = JObj [(''data'', primary_user JNull)]"

text \<open>The document of `when user exists and in a team', over a given order of \<open>included\<close>.\<close>

definition doc_in_team :: "json list \<Rightarrow> json" where
  "doc_in_team included = JObj
     [(''data'', primary_user (ref ''teams'' ''clicky-keys'')), (''included'', JArr included)]"

definition doc_not_found :: json where
  "doc_not_found = JObj [(''errors'', JArr
     [JObj [(''status'', JStr ''404''), (''title'', JStr ''Resource not found.'')]])]"

definition body_no_team :: string where
  \<open>body_no_team = ''{"data":{"type":"users","id":"U12345","attributes":{"name":"Barry"},"relationships":{"team":{"data":null}}}}''\<close>

definition body_in_team :: string where
  \<open>body_in_team = ''{"data":{"type":"users","id":"U12345","attributes":{"name":"Barry"},"relationships":{"team":{"data":{"type":"teams","id":"clicky-keys"}}}},"included":[{"type":"teams","id":"clicky-keys","attributes":{"name":"Clicky Keys"},"relationships":{"members":{"data":[{"type":"users","id":"U12345"},{"type":"users","id":"U67890"}]}}},{"type":"users","id":"U67890","attributes":{"name":"Zackary"},"relationships":{"team":{"data":{"type":"teams","id":"clicky-keys"}}}}]}''\<close>

definition body_in_team_reordered :: string where
  \<open>body_in_team_reordered = ''{"data":{"type":"users","id":"U12345","attributes":{"name":"Barry"},"relationships":{"team":{"data":{"type":"teams","id":"clicky-keys"}}}},"included":[{"type":"users","id":"U67890","attributes":{"name":"Zackary"},"relationships":{"team":{"data":{"type":"teams","id":"clicky-keys"}}}},{"type":"teams","id":"clicky-keys","attributes":{"name":"Clicky Keys"},"relationships":{"members":{"data":[{"type":"users","id":"U12345"},{"type":"users","id":"U67890"}]}}}]}''\<close>

definition body_not_found :: string where
  \<open>body_not_found = ''{"errors":[{"status":"404","title":"Resource not found."}]}''\<close>


definition test_parse :: "string \<Rightarrow> json option" where
  "test_parse = map_of
     [(body_no_team, doc_no_team),
      (body_in_team, doc_in_team [included_team, included_user]),
      (body_in_team_reordered, doc_in_team [included_user, included_team]),
      (body_not_found, doc_not_found)]"

section \<open>The fixtures parse as intended\<close>

lemma parse_no_team: "test_parse body_no_team = Some doc_no_team"
  by (simp add: test_parse_def)




section \<open>Transport failures\<close>

text \<open>
  C3. In each of the five operations, when the transport reports an error for the request
  the operation sends, the promise is rejected with that very error value; it is not a
  resolved result of any kind, and exactly one request has been sent (nothing is retried).
\<close>

theorem transport_error_rejects_unchanged:
  fixes robot :: "'e robot"
  shows
  "(err (robot (checkApi_request pe)) = Some e \<longrightarrow>
      checkApi pe robot = (Rejected e, [checkApi_request pe]) \<and>
      (\<forall>v. fst (checkApi pe robot) \<noteq> Resolved v)) \<and>
   (err (robot (createTeam_request pe str teamName userId)) = Some e \<longrightarrow>
      createTeam pe str robot teamName userId
        = (Rejected e, [createTeam_request pe str teamName userId]) \<and>
      (\<forall>v. fst (createTeam pe str robot teamName userId) \<noteq> Resolved v)) \<and>
   (err (robot (createUser_request pe str userId userName)) = Some e \<longrightarrow>
      createUser pe str robot userId userName
        = (Rejected e, [createUser_request pe str userId userName]) \<and>
      (\<forall>v. fst (createUser pe str robot userId userName) \<noteq> Resolved v)) \<and>
   (err (robot (getUser_request pe userId)) = Some e \<longrightarrow>
      getUser pe parse robot userId = (Rejected e, [getUser_request pe userId]) \<and>
      (\<forall>v. fst (getUser pe parse robot userId) \<noteq> Resolved v)) \<and>
   (err (robot (getTeamByName_request pe teamName)) = Some e \<longrightarrow>
      getTeamByName pe parse robot teamName
        = (Rejected e, [getTeamByName_request pe teamName]) \<and>
      (\<forall>v. fst (getTeamByName pe parse robot teamName) \<noteq> Resolved v))"
  by (simp add: checkApi_def checkApi_callback_def createTeam_def createTeam_callback_def
      createUser_def createUser_callback_def getUser_def getUser_callback_def
      getTeamByName_def getTeamByName_callback_def Let_def)

theorem transport_error_rejects_unchanged_witness:
  "checkApi test_env (canned socket_hang_up)
     = (Rejected ''socket hang up'', [checkApi_request test_env]) \<and>
   createTeam test_env test_stringify (canned socket_hang_up) ''Pineapple Express'' ''U12345''
     = (Rejected ''socket hang up'',
        [createTeam_request test_env test_stringify ''Pineapple Express'' ''U12345'']) \<and>
   createUser test_env test_stringify (canned socket_hang_up) ''U12345'' ''Barry''
     = (Rejected ''socket hang up'', [createUser_request test_env test_stringify ''U12345'' ''Barry'']) \<and>
   getUser test_env test_parse (canned socket_hang_up) ''U12345''
     = (Rejected ''socket hang up'', [getUser_request test_env ''U12345'']) \<and>
   getTeamByName test_env test_parse (canned socket_hang_up) ''Pineapple Express''
     = (Rejected ''socket hang up'', [getTeamByName_request test_env ''Pineapple Express''])"
  using transport_error_rejects_unchanged
    [where robot = "canned socket_hang_up" and pe = test_env and e = "''socket hang up''"
       and teamName = "''Pineapple Express''" and userId = "''U12345''"
       and userName = "''Barry''" and str = test_stringify and parse = test_parse]
  by (simp add: canned_def socket_hang_up_def)

section \<open>Which answers carry a payload\<close>

text \<open>
  C9. When the transport reports no error, \<open>getUser\<close> and \<open>getTeamByName\<close> attach the
  parsed body (as \<open>user\<close>, respectively \<open>team\<close>) only when the status code is exactly
  200. For every other status code, the other 2xx codes among them, the promise resolves
  with an object that has the \<open>statusCode\<close> property and nothing else.
\<close>

theorem payload_only_at_200:
  fixes robot :: "'e robot"
  shows
  "(err (robot (getUser_request pe userId)) = None \<longrightarrow>
      (statusCode (robot (getUser_request pe userId)) = 200 \<and>
       parse (body (robot (getUser_request pe userId))) = Some d \<longrightarrow>
         fst (getUser pe parse robot userId)
           = Resolved (JObj [(''statusCode'', JNum 200), (''user'', d)])) \<and>
      (statusCode (robot (getUser_request pe userId)) \<noteq> 200 \<longrightarrow>
         fst (getUser pe parse robot userId)
           = Resolved (JObj [(''statusCode'', JNum (statusCode (robot (getUser_request pe userId))))]))) \<and>
   (err (robot (getTeamByName_request pe teamName)) = None \<longrightarrow>
      (statusCode (robot (getTeamByName_request pe teamName)) = 200 \<and>
       parse (body (robot (getTeamByName_request pe teamName))) = Some d \<longrightarrow>
         fst (getTeamByName pe parse robot teamName)
           = Resolved (JObj [(''statusCode'', JNum 200), (''team'', d)])) \<and>
      (statusCode (robot (getTeamByName_request pe teamName)) \<noteq> 200 \<longrightarrow>
         fst (getTeamByName pe parse robot teamName)
           = Resolved (JObj [(''statusCode'',
               JNum (statusCode (robot (getTeamByName_request pe teamName))))])))"
  by (simp add: getUser_def getUser_callback_def getTeamByName_def getTeamByName_callback_def
      Let_def)

theorem payload_only_at_200_witness:
  "fst (getUser test_env test_parse (canned (answer 200 body_no_team)) ''U12345'')
     = Resolved (JObj [(''statusCode'', JNum 200), (''user'', doc_no_team)]) \<and>
   fst (getTeamByName test_env test_parse (canned (answer 200 body_no_team)) ''Clicky Keys'')
     = Resolved (JObj [(''statusCode'', JNum 200), (''team'', doc_no_team)]) \<and>
   fst (getUser test_env test_parse (canned (answer 201 body_no_team)) ''U12345'')
     = Resolved (JObj [(''statusCode'', JNum 201)]) \<and>
   fst (getTeamByName test_env test_parse (canned (answer 299 body_no_team)) ''Clicky Keys'')
     = Resolved (JObj [(''statusCode'', JNum 299)])"
  using
    payload_only_at_200 [where robot = "canned (answer 200 body_no_team)" and pe = test_env
      and userId = "''U12345''" and teamName = "''Clicky Keys''" and parse = test_parse
      and d = doc_no_team]
    payload_only_at_200 [where robot = "canned (answer 201 body_no_team)" and pe = test_env
      and userId = "''U12345''" and teamName = "''Clicky Keys''" and parse = test_parse
      and d = doc_no_team]
    payload_only_at_200 [where robot = "canned (answer 299 body_no_team)" and pe = test_env
      and userId = "''U12345''" and teamName = "''Clicky Keys''" and parse = test_parse
      and d = doc_no_team]
  by (simp add: canned_def answer_def parse_no_team)

section \<open>The credential of the creating operations\<close>

text \<open>
  C10. Every call of \<open>createTeam\<close> and of \<open>createUser\<close> sends one request, and that
  request carries the credential made of the environment values \<open>HACKBOT_USERNAME\<close> and
  \<open>HACKBOT_PASSWORD\<close> alone. The team name, user id and user name do not enter it, so any
  two calls under one environment carry the same credential, and none goes without.
\<close>

theorem credential_from_environment_only:
  fixes robot :: "'e robot" and robot' :: "'e robot"
  shows
  "map auth (snd (createTeam pe str robot teamName userId))
     = [Some (interp (pe ''HACKBOT_USERNAME'') @ '':'' @ interp (pe ''HACKBOT_PASSWORD''))] \<and>
   map auth (snd (createUser pe str robot userId userName))
     = [Some (interp (pe ''HACKBOT_USERNAME'') @ '':'' @ interp (pe ''HACKBOT_PASSWORD''))] \<and>
   map auth (snd (createTeam pe str robot teamName userId))
     = map auth (snd (createTeam pe str' robot' teamName' userId')) \<and>
   map auth (snd (createUser pe str robot userId userName))
     = map auth (snd (createUser pe str' robot' userId' userName')) \<and>
   map auth (snd (createTeam pe str robot teamName userId))
     = map auth (snd (createUser pe str' robot' userId' userName'))"
  by (simp add: createTeam_def createUser_def createTeam_request_def createUser_request_def
      getAuth_def Let_def)

section \<open>A body that does not parse\<close>




section \<open>Where the client and its test-suite part\<close>







end
